theory Spec2Isabelle
  imports Complex_Main "HOL-Library.Sublist" "HOL-Library.AList"
begin

section \<open>The message generator (backend/ai\_generator.py)\<close>

subsection \<open>Python values, exceptions and dictionaries\<close>

text \<open>
  A profile is a Python dict from field names to JSON values. Two things about a value
  matter to the generator: whether it is a \<open>str\<close> (only a \<open>str\<close> has the method
  \<open>lower\<close>), and the text that \<open>format\<close> and an f-string insert for it. A string value
  is \<open>Str s\<close>; any other JSON value is \<open>NonStr s\<close>, carrying the text \<open>s\<close> that
  \<open>str()\<close> gives for it (\<open>None\<close> for null, \<open>5\<close> for the number five).
\<close>

datatype pyval = Str string | NonStr string

datatype exn = AttributeError | KeyError string | ValueError | IndexError | TypeError | BadRequest

type_synonym profile = "string \<rightharpoonup> pyval"

text \<open>\<open>d.get(k, default)\<close>\<close>

definition dict_get :: "('k \<rightharpoonup> 'v) \<Rightarrow> 'k \<Rightarrow> 'v \<Rightarrow> 'v" where
  "dict_get d k dflt = (case d k of None \<Rightarrow> dflt | Some v \<Rightarrow> v)"

text \<open>\<open>k in d\<close>\<close>

definition has_key :: "('k \<rightharpoonup> 'v) \<Rightarrow> 'k \<Rightarrow> bool" where
  "has_key d k = (d k \<noteq> None)"

text \<open>
  A \<open>string\<close> is the list of the characters of a Python \<open>str\<close>, a \<open>char\<close> being a
  code point below 256 (ASCII and the Latin-1 supplement). On these \<open>str.lower()\<close> maps
  \<open>A\<close> to \<open>Z\<close> (65 to 90) and the upper-case letters 192 to 222, the multiplication
  sign 215 apart, to the code point 32 above, and leaves every other character as it is.
  Calling \<open>.lower()\<close> on a value that is not a \<open>str\<close> raises \<open>AttributeError\<close>.
\<close>

definition lower_char :: "char \<Rightarrow> char" where
  "lower_char c =
     (let n = (of_char c :: nat)
      in if (65 \<le> n \<and> n \<le> 90) \<or> (192 \<le> n \<and> n \<le> 222 \<and> n \<noteq> 215) then char_of (n + 32)
         else c)"

definition lower :: "string \<Rightarrow> string" where
  "lower s = map lower_char s"

fun py_lower :: "pyval \<Rightarrow> exn + string" where
  "py_lower (Str s) = Inr (lower s)"
| "py_lower (NonStr s) = Inl AttributeError"

text \<open>The text inserted for a value by \<open>format\<close> or an f-string.\<close>

fun render :: "pyval \<Rightarrow> string" where
  "render (Str s) = s"
| "render (NonStr s) = s"

text \<open>\<open>sub in s\<close> on strings is the substring test, \<^const>\<open>sublist\<close>.\<close>

subsection \<open>\<open>str.format(**vars)\<close>\<close>

text \<open>
  The format strings of this module have replacement fields that are plain keyword names,
  and the model of \<open>format\<close> covers those: \<open>{{\<close> and \<open>}}\<close> are escaped braces, \<open>{name}\<close>
  is replaced by the text of \<open>vars[name]\<close> (a missing name raises \<open>KeyError\<close>), a brace
  left alone raises \<open>ValueError\<close>. Inserted text is not scanned again. The second
  argument of \<open>format_from\<close> is the field name read so far, when the scan is inside
  a replacement field.
\<close>

fun format_from :: "(string \<rightharpoonup> pyval) \<Rightarrow> string option \<Rightarrow> string \<Rightarrow> exn + string" where
  "format_from vars None [] = Inr []"
| "format_from vars (Some field) [] = Inl ValueError"
| "format_from vars (Some field) (c # cs) =
     (if c = CHR ''}'' then
        (case vars field of
           None \<Rightarrow> Inl (KeyError field)
         | Some v \<Rightarrow> map_sum id ((@) (render v)) (format_from vars None cs))
      else format_from vars (Some (field @ [c])) cs)"
| "format_from vars None [c] =
     (if c = CHR ''{'' \<or> c = CHR ''}'' then Inl ValueError else Inr [c])"
| "format_from vars None (c # d # cs) =
     (if c = CHR ''{'' then
        (if d = CHR ''{'' then map_sum id ((#) c) (format_from vars None cs)
         else format_from vars (Some []) (d # cs))
      else if c = CHR ''}'' then
        (if d = CHR ''}'' then map_sum id ((#) c) (format_from vars None cs)
         else Inl ValueError)
      else map_sum id ((#) c) (format_from vars None (d # cs)))"

definition format :: "string \<Rightarrow> (string \<rightharpoonup> pyval) \<Rightarrow> exn + string" where
  "format template vars = format_from vars None template"

subsection \<open>\<open>random.choice\<close>\<close>

text \<open>
  \<open>random.choice(seq)\<close> returns \<open>seq[i]\<close> for an index \<open>i\<close> drawn uniformly from
  \<open>range(len(seq))\<close>, and raises \<open>IndexError\<close> on an empty sequence. The random source is
  an explicit argument \<open>r\<close>, reduced to an index below the length.
\<close>

definition random_choice :: "'a list \<Rightarrow> nat \<Rightarrow> exn + 'a" where
  "random_choice xs r = (if xs = [] then Inl IndexError else Inr (xs ! (r mod length xs)))"

text \<open>
  With the index uniform, the probability that \<open>random.choice(xs)\<close> returns \<open>x\<close> is the
  number of positions of \<open>xs\<close> holding \<open>x\<close> over the length of \<open>xs\<close>.
\<close>

definition choice_prob :: "'a list \<Rightarrow> 'a \<Rightarrow> rat" where
  "choice_prob xs x = of_nat (count_list xs x) / of_nat (length xs)"

subsection \<open>The template pools\<close>

definition RECRUITER_FALLBACK :: "string list" where
  "RECRUITER_FALLBACK =
    [''I'm currently exploring internship opportunities in {industry} and would appreciate connecting with someone from {company}'s talent team.'',
     ''As a {your_role} passionate about {industry}, I'd love to connect with {company}'s recruitment team to stay updated on future opportunities.'',
     ''I'm impressed by {company}'s work in {industry} and would welcome the chance to connect with your recruitment team.'',
     ''Would love to stay connected with {company}'s talent acquisition team as I explore internship opportunities in {industry}.'']"

definition ALUMNI_FALLBACK :: "string list" where
  "ALUMNI_FALLBACK =
    [''As a fellow {school} graduate currently exploring {industry} opportunities, I'd love to connect and hear about your journey from {school} to {current_role} at {company}.'',
     ''I noticed we both attended {school} - would you be open to sharing how your experience there helped shape your path to {current_role} at {company}?'',
     ''As a current {school} student interested in {industry}, I'd appreciate connecting with alumni like yourself to learn about your career journey.'',
     ''Your path from {school} to {current_role} at {company} is inspiring! Would you be open to connecting and sharing some career insights?'']"

subsection \<open>\<open>get_fallback_message\<close>\<close>

text \<open>The dict \<open>template_vars\<close> of \<open>get_fallback_message\<close>, as an association list.\<close>

definition template_vars_list :: "profile \<Rightarrow> (string \<times> pyval) list" where
  "template_vars_list profile_data =
    [(''name'', dict_get profile_data ''name'' (Str ''there'')),
     (''title'', dict_get profile_data ''title'' (Str ''professional'')),
     (''company'', dict_get profile_data ''company'' (Str ''your company'')),
     (''school'', dict_get profile_data ''school'' (Str ''our shared alma mater'')),
     (''industry'', dict_get profile_data ''industry'' (Str ''this field'')),
     (''your_role'', dict_get profile_data ''your_role'' (Str ''aspiring professional'')),
     (''current_role'', dict_get profile_data ''title'' (Str ''current position''))]"

definition template_vars :: "profile \<Rightarrow> (string \<rightharpoonup> pyval)" where
  "template_vars profile_data = map_of (template_vars_list profile_data)"

text \<open>
  The template chosen by the \<open>if\<close>/\<open>elif\<close>/\<open>else\<close> of \<open>get_fallback_message\<close>, from the two
  flags the function computes.
\<close>

definition choose_template :: "bool \<Rightarrow> bool \<Rightarrow> nat \<Rightarrow> exn + string" where
  "choose_template is_recruiter is_alumni r =
     (if is_recruiter then random_choice RECRUITER_FALLBACK r
      else if is_alumni then random_choice ALUMNI_FALLBACK r
      else random_choice (RECRUITER_FALLBACK @ ALUMNI_FALLBACK) r)"

definition get_fallback_message :: "profile \<Rightarrow> nat \<Rightarrow> exn + string" where
  "get_fallback_message profile_data r =
     (case py_lower (dict_get profile_data ''title'' (Str [])) of
        Inl e \<Rightarrow> Inl e
      | Inr t \<Rightarrow>
          (let is_recruiter = sublist ''recruit'' t;
               is_alumni = has_key profile_data ''school''
           in case choose_template is_recruiter is_alumni r of
                Inl e \<Rightarrow> Inl e
              | Inr template \<Rightarrow> format template (template_vars profile_data)))"

subsection \<open>\<open>generate_message\<close>\<close>

text \<open>The local variables that the \<open>try\<close> block of \<open>generate_message\<close> extracts.\<close>

record prompt_fields =
  pf_name :: pyval
  pf_title :: string
  pf_company :: pyval
  pf_school :: pyval
  pf_industry :: pyval
  pf_your_role :: pyval

definition extract_details :: "profile \<Rightarrow> exn + prompt_fields" where
  "extract_details profile_data =
     (case py_lower (dict_get profile_data ''title'' (Str ''professional'')) of
        Inl e \<Rightarrow> Inl e
      | Inr t \<Rightarrow> Inr
          \<lparr> pf_name = dict_get profile_data ''name'' (Str ''there''),
            pf_title = t,
            pf_company = dict_get profile_data ''company'' (Str ''your company''),
            pf_school = dict_get profile_data ''school'' (Str ''our alma mater''),
            pf_industry = dict_get profile_data ''industry'' (Str ''this field''),
            pf_your_role = dict_get profile_data ''your_role'' (Str ''aspiring professional'') \<rparr>)"

text \<open>The four f-strings of the prompt, with the line breaks and indentation of the source.\<close>

definition prompt_preamble :: "prompt_fields \<Rightarrow> string" where
  "prompt_preamble f =
     ''Create a LinkedIn connection message for '' @ render (pf_name f) @
     '' with these rules:\<newline>        - Max 2 sentences\<newline>        - Professional but approachable tone\<newline>        - No emojis or slang\<newline>        - Skip greetings/signatures\<newline>        \<newline>        Target Profile: ''"

definition recruiter_goal :: "prompt_fields \<Rightarrow> string" where
  "recruiter_goal f =
     ''Recruiter at '' @ render (pf_company f) @ '' in '' @ render (pf_industry f) @
     ''. \<newline>            Goal: Express interest in internship opportunities, highlight relevant skills ('' @
     render (pf_your_role f) @
     ''), \<newline>            and request to stay connected.''"

definition alumni_goal :: "prompt_fields \<Rightarrow> string" where
  "alumni_goal f =
     ''Alumni from '' @ render (pf_school f) @ '' now working as '' @ pf_title f @ '' at '' @
     render (pf_company f) @
     ''.\<newline>            Goal: Establish common ground, express interest in their career journey, \<newline>            and request brief insights about transitioning from school to their role.''"

definition generic_goal :: "prompt_fields \<Rightarrow> string" where
  "generic_goal f =
     ''Generic professional ('' @ pf_title f @ '' at '' @ render (pf_company f) @
     '').\<newline>            Goal: Create connection based on shared industry interests ('' @
     render (pf_industry f) @
     '') \<newline>            and request knowledge sharing.''"

text \<open>Lines 38 to 69: the value of the local \<open>prompt\<close> at the end of the \<open>try\<close> block.\<close>

definition build_prompt :: "profile \<Rightarrow> exn + string" where
  "build_prompt profile_data =
     (case extract_details profile_data of
        Inl e \<Rightarrow> Inl e
      | Inr f \<Rightarrow>
          (let is_recruiter = (sublist ''recruit'' (pf_title f) \<or> sublist ''talent'' (pf_title f));
               is_alumni = has_key profile_data ''school'';
               prompt = prompt_preamble f
           in Inr (if is_recruiter then prompt @ recruiter_goal f
                   else if is_alumni then prompt @ alumni_goal f
                   else prompt @ generic_goal f)))"

text \<open>
  \<open>generate_message\<close>. The module constant \<open>DEEPSEEK_API_KEY\<close> is the argument \<open>api_key\<close>
  (\<open>None\<close> when the variable is unset); \<open>not DEEPSEEK_API_KEY\<close> holds for \<open>None\<close> and for
  the empty string. The result is \<open>Inl e\<close> when the call raises \<open>e\<close>, \<open>Inr (Some s)\<close> when
  it returns the string \<open>s\<close>, and \<open>Inr None\<close> when it returns Python's \<open>None\<close>: the \<open>try\<close>
  block ends after building the prompt, with no \<open>return\<close>, so a call that gets through
  it falls off the end of the function. The \<open>print\<close> of the warning is not modelled.
\<close>

definition falsy_key :: "string option \<Rightarrow> bool" where
  "falsy_key api_key = (case api_key of None \<Rightarrow> True | Some k \<Rightarrow> k = [])"

definition returned :: "exn + string \<Rightarrow> exn + string option" where
  "returned res = map_sum id Some res"

definition generate_message :: "string option \<Rightarrow> profile \<Rightarrow> nat \<Rightarrow> exn + string option" where
  "generate_message api_key profile_data r =
     (if falsy_key api_key then returned (get_fallback_message profile_data r)
      else (case build_prompt profile_data of
              Inl e \<Rightarrow> returned (get_fallback_message profile_data r)
            | Inr prompt \<Rightarrow> Inr None))"

subsection \<open>Audience categories\<close>

text \<open>
  The source has no category type: it branches on the flags \<open>is_recruiter\<close> and
  \<open>is_alumni\<close>. The definitions of this subsection follow the wording of the
  specification instead (a closed variant \<open>Recruiter | Alumni | Generic\<close>, the recruiter
  test before the alumni test), to be compared with the functions above.
  \<open>title_text\<close> is the title when it is a string and the given default when the field is
  missing; \<open>has_str_title\<close> says that the title, when present, is a string, as the
  \<open>ProfileRecord\<close> of the specification has it.
\<close>

datatype category = Recruiter | Alumni | Generic

definition has_str_title :: "profile \<Rightarrow> bool" where
  "has_str_title p = (case p ''title'' of Some (NonStr s) \<Rightarrow> False | _ \<Rightarrow> True)"

definition title_text :: "profile \<Rightarrow> string \<Rightarrow> string" where
  "title_text p dflt = (case p ''title'' of Some (Str s) \<Rightarrow> s | _ \<Rightarrow> dflt)"

text \<open>The classification of the prompt-building path: \<open>recruit\<close> or \<open>talent\<close>.\<close>

definition classify_prompt :: "profile \<Rightarrow> category" where
  "classify_prompt p =
     (let t = lower (title_text p ''professional'')
      in if sublist ''recruit'' t \<or> sublist ''talent'' t then Recruiter
         else if has_key p ''school'' then Alumni
         else Generic)"

text \<open>The classification of the fallback renderer: \<open>recruit\<close> only.\<close>

definition classify_fallback :: "profile \<Rightarrow> category" where
  "classify_fallback p =
     (let t = lower (title_text p [])
      in if sublist ''recruit'' t then Recruiter
         else if has_key p ''school'' then Alumni
         else Generic)"

text \<open>The pool of a category: its own pool, and the union of both for \<open>Generic\<close>.\<close>

fun pool_of :: "category \<Rightarrow> string list" where
  "pool_of Recruiter = RECRUITER_FALLBACK"
| "pool_of Alumni = ALUMNI_FALLBACK"
| "pool_of Generic = RECRUITER_FALLBACK @ ALUMNI_FALLBACK"

text \<open>The goal clause of a category in the prompt.\<close>

fun goal_clause :: "category \<Rightarrow> prompt_fields \<Rightarrow> string" where
  "goal_clause Recruiter f = recruiter_goal f"
| "goal_clause Alumni f = alumni_goal f"
| "goal_clause Generic f = generic_goal f"

text \<open>
  The texts of the eight templates, recruiter pool first, with the values of the five
  variables they mention in the places of the placeholders (no template mentions
  \<open>{name}\<close> or \<open>{title}\<close>).
\<close>

definition rendered_templates ::
  "string \<Rightarrow> string \<Rightarrow> string \<Rightarrow> string \<Rightarrow> string \<Rightarrow> (exn + string) list" where
  "rendered_templates industry company your_role school current_role =
     [Inr (''I'm currently exploring internship opportunities in '' @ industry @
           '' and would appreciate connecting with someone from '' @ company @
           '''s talent team.''),
      Inr (''As a '' @ your_role @ '' passionate about '' @ industry @
           '', I'd love to connect with '' @ company @
           '''s recruitment team to stay updated on future opportunities.''),
      Inr (''I'm impressed by '' @ company @ '''s work in '' @ industry @
           '' and would welcome the chance to connect with your recruitment team.''),
      Inr (''Would love to stay connected with '' @ company @
           '''s talent acquisition team as I explore internship opportunities in '' @
           industry @ ''.''),
      Inr (''As a fellow '' @ school @ '' graduate currently exploring '' @ industry @
           '' opportunities, I'd love to connect and hear about your journey from '' @
           school @ '' to '' @ current_role @ '' at '' @ company @ ''.''),
      Inr (''I noticed we both attended '' @ school @
           '' - would you be open to sharing how your experience there helped shape your path to '' @
           current_role @ '' at '' @ company @ ''?''),
      Inr (''As a current '' @ school @ '' student interested in '' @ industry @
           '', I'd appreciate connecting with alumni like yourself to learn about your career journey.''),
      Inr (''Your path from '' @ school @ '' to '' @ current_role @ '' at '' @ company @
           '' is inspiring! Would you be open to connecting and sharing some career insights?'')]"

section \<open>The web layer (backend/app.py)\<close>

subsection \<open>JSON values, requests and responses\<close>

text \<open>
  The endpoints read parsed JSON. A JSON object is a Python dict, kept here as an
  association list in insertion order: \<open>map_of d k\<close> looks a key up, \<open>AList.update k v d\<close>
  is \<open>d[k] = v\<close> (an existing key keeps its place, a new key goes to the end), and the
  length of the list is \<open>len(d)\<close> as long as the keys are distinct.

  \<open>jval\<close> are the JSON strings, numbers and null: the values of the fields of a
  connection request, what the handlers store themselves (\<open>'connected'\<close>,
  \<open>time.time()\<close>, \<open>None\<close>), and the keys of the profile store. Time is a real number of
  seconds. \<open>json\<close> is any parsed JSON value: a \<open>jval\<close>, a boolean, an array or an
  object.
\<close>

datatype jval = JStr string | JNum real | JNull

type_synonym jobj = "(string \<times> jval) list"

datatype json = Scalar jval | JBool bool | JArr "json list" | JObj "(string \<times> json) list"

type_synonym profile_obj = "(string \<times> json) list"

text \<open>\<open>d[k]\<close> on a dict: \<open>KeyError\<close> when the key is missing.\<close>

definition subscript :: "(string \<times> 'v) list \<Rightarrow> string \<Rightarrow> exn + 'v" where
  "subscript d k = (case map_of d k of None \<Rightarrow> Inl (KeyError k) | Some v \<Rightarrow> Inr v)"

text \<open>
  The operators the bulk-ingestion handler applies to values it has not checked, by the
  type of the value. \<open>not v\<close> holds for \<open>None\<close>, \<open>False\<close>, zero and the empty string, list
  and dict. \<open>k in v\<close> for a string \<open>k\<close> is key membership on a dict, element membership
  on a list, the substring test on a string, and raises \<open>TypeError\<close> on a number, a
  boolean and \<open>None\<close>. \<open>v[k]\<close> for a string \<open>k\<close> is the lookup on a dict (\<open>KeyError\<close> when
  the key is missing) and raises \<open>TypeError\<close> on every other value. \<open>for x in v\<close> runs
  through the elements of a list, the keys of a dict and the characters of a string
  (\<open>len(v)\<close> is their number), and raises \<open>TypeError\<close> on the rest.
\<close>

fun py_not :: "json \<Rightarrow> bool" where
  "py_not (Scalar (JStr s)) = (s = [])"
| "py_not (Scalar (JNum x)) = (x = 0)"
| "py_not (Scalar JNull) = True"
| "py_not (JBool b) = (\<not> b)"
| "py_not (JArr xs) = (xs = [])"
| "py_not (JObj kvs) = (kvs = [])"

fun py_in :: "string \<Rightarrow> json \<Rightarrow> exn + bool" where
  "py_in k (JObj kvs) = Inr (has_key (map_of kvs) k)"
| "py_in k (JArr xs) = Inr (Scalar (JStr k) \<in> set xs)"
| "py_in k (Scalar (JStr s)) = Inr (sublist k s)"
| "py_in k (Scalar (JNum x)) = Inl TypeError"
| "py_in k (Scalar JNull) = Inl TypeError"
| "py_in k (JBool b) = Inl TypeError"

fun py_getitem :: "json \<Rightarrow> string \<Rightarrow> exn + json" where
  "py_getitem (JObj kvs) k = subscript kvs k"
| "py_getitem (JArr xs) k = Inl TypeError"
| "py_getitem (Scalar v) k = Inl TypeError"
| "py_getitem (JBool b) k = Inl TypeError"

fun py_iter :: "json \<Rightarrow> exn + json list" where
  "py_iter (JArr xs) = Inr xs"
| "py_iter (JObj kvs) = Inr (map (\<lambda>kv. Scalar (JStr (fst kv))) kvs)"
| "py_iter (Scalar (JStr s)) = Inr (map (\<lambda>c. Scalar (JStr [c])) s)"
| "py_iter (Scalar (JNum x)) = Inl TypeError"
| "py_iter (Scalar JNull) = Inl TypeError"
| "py_iter (JBool b) = Inl TypeError"

text \<open>
  A value used as a dict key is hashed: a list or a dict raises \<open>TypeError\<close>. The keys
  \<open>True\<close> and \<open>1\<close> (\<open>False\<close> and \<open>0\<close>) are equal with equal hashes, hence one key.
\<close>

fun dict_key :: "json \<Rightarrow> exn + jval" where
  "dict_key (Scalar v) = Inr v"
| "dict_key (JBool b) = Inr (JNum (if b then 1 else 0))"
| "dict_key (JArr xs) = Inl TypeError"
| "dict_key (JObj kvs) = Inl TypeError"

text \<open>
  A request is either not JSON (\<open>request.is_json\<close> is false) or carries its parsed body.
  A response is the dict given to \<open>jsonify\<close> and the status code (200 when the handler
  gives none). An exception that leaves a handler goes to \<open>handle_exception\<close>, the
  handler registered for \<open>Exception\<close>, which answers with the status 500:
  \<open>status_of\<close> is the status the client gets.
\<close>

datatype 'a request = NotJson | Json 'a

datatype rval = RStr string | RInt int | RBool bool

record response =
  status_code :: nat
  body :: "(string \<times> rval) list"

definition status_of :: "exn + response \<Rightarrow> nat" where
  "status_of res = (case res of Inl e \<Rightarrow> 500 | Inr r \<Rightarrow> status_code r)"

text \<open>\<open>str(n)\<close> for an integer, as the f-strings of the messages print it.\<close>

fun str_nat :: "nat \<Rightarrow> string" where
  "str_nat n =
     (if n < 10 then [char_of (48 + n)] else str_nat (n div 10) @ [char_of (48 + n mod 10)])"

declare str_nat.simps [simp del]

definition str_int :: "int \<Rightarrow> string" where
  "str_int i = (if i < 0 then CHR ''-'' # str_nat (nat (- i)) else str_nat (nat i))"

subsection \<open>The module state\<close>

text \<open>
  The three module-level variables. \<open>profiles_data\<close> is a dict from profile URL to
  profile (a dict, with JSON values of any kind), \<open>connection_history\<close> a list of
  connection records (dicts),
  \<open>request_timestamps\<close> the list of times at which connections were recorded.
  \<open>MAX_REQUESTS_PER_HOUR\<close> is read once from the environment (default 20): it is the
  argument \<open>max_requests\<close> of the functions that use it.
\<close>

record app_state =
  profiles_data :: "(jval \<times> profile_obj) list"
  connection_history :: "jobj list"
  request_timestamps :: "real list"

definition initial_state :: app_state where
  "initial_state = \<lparr> profiles_data = [], connection_history = [], request_timestamps = [] \<rparr>"

subsection \<open>The rate limiter\<close>

text \<open>
  \<open>check_rate_limit\<close> reads the clock (\<open>current_time\<close>), drops the timestamps that are
  not newer than one hour, stores the remaining list back into the global, and answers
  whether the limit is reached. \<open>update_rate_limit\<close> appends the time it reads.
\<close>

definition check_rate_limit :: "int \<Rightarrow> real \<Rightarrow> app_state \<Rightarrow> bool \<times> app_state" where
  "check_rate_limit max_requests current_time s =
     (let one_hour_ago = current_time - 3600;
          kept = filter (\<lambda>ts. ts > one_hour_ago) (request_timestamps s)
      in (int (length kept) \<ge> max_requests, s\<lparr>request_timestamps := kept\<rparr>))"

definition update_rate_limit :: "real \<Rightarrow> app_state \<Rightarrow> app_state" where
  "update_rate_limit now s = s\<lparr>request_timestamps := request_timestamps s @ [now]\<rparr>"

text \<open>
  The quantity the limiter compares with \<open>MAX_REQUESTS_PER_HOUR\<close>: the number of
  recorded connections whose timestamp is newer than one hour before \<open>now\<close>.
\<close>

definition recorded_within_hour :: "real \<Rightarrow> app_state \<Rightarrow> nat" where
  "recorded_within_hour now s = length (filter (\<lambda>ts. now - 3600 < ts) (request_timestamps s))"

subsection \<open>\<open>collect_profiles\<close>\<close>

text \<open>
  The body of a bulk-ingestion request is whatever JSON the client sends: \<open>Parsed v\<close>
  is \<open>request.json\<close> returning \<open>v\<close>, and \<open>Unparsable\<close> a body that is not JSON text,
  where \<open>request.json\<close> raises \<open>BadRequest\<close>. The result is the response, or the
  exception that leaves the handler, and the state after the call.

  \<open>store_profiles\<close> is the \<open>for\<close> loop over \<open>data['profiles']\<close>: it ends with the
  exception of the first element that raises one, keeping what it has stored until
  then. An element passes \<open>'profileUrl' in profile\<close>, then \<open>profile['profileUrl']\<close>
  (only a dict has string subscripts), then the hashing of the URL as a key.
\<close>

fun store_profiles ::
  "json list \<Rightarrow> (jval \<times> profile_obj) list \<Rightarrow> exn option \<times> (jval \<times> profile_obj) list" where
  "store_profiles [] pd = (None, pd)"
| "store_profiles (profile # rest) pd =
     (case py_in ''profileUrl'' profile of
        Inl e \<Rightarrow> (Some e, pd)
      | Inr False \<Rightarrow> store_profiles rest pd
      | Inr True \<Rightarrow>
          (case profile of
             JObj obj \<Rightarrow>
               (case subscript obj ''profileUrl'' of
                  Inl e \<Rightarrow> (Some e, pd)
                | Inr url \<Rightarrow>
                    (case dict_key url of
                       Inl e \<Rightarrow> (Some e, pd)
                     | Inr k \<Rightarrow> store_profiles rest (AList.update k obj pd)))
           | _ \<Rightarrow> (Some TypeError, pd)))"

datatype bulk_body = Unparsable | Parsed json

definition collect_profiles ::
  "bulk_body request \<Rightarrow> app_state \<Rightarrow> (exn + response) \<times> app_state" where
  "collect_profiles req s =
     (case req of
        NotJson \<Rightarrow>
          (Inr \<lparr>status_code = 400, body = [(''error'', RStr ''Request must be JSON'')]\<rparr>, s)
      | Json Unparsable \<Rightarrow> (Inl BadRequest, s)
      | Json (Parsed data) \<Rightarrow>
          if py_not data then
            (Inr \<lparr>status_code = 400, body = [(''error'', RStr ''No profiles provided'')]\<rparr>, s)
          else
            (case py_in ''profiles'' data of
               Inl e \<Rightarrow> (Inl e, s)
             | Inr False \<Rightarrow>
                 (Inr \<lparr>status_code = 400, body = [(''error'', RStr ''No profiles provided'')]\<rparr>,
                  s)
             | Inr True \<Rightarrow>
                 (case py_getitem data ''profiles'' of
                    Inl e \<Rightarrow> (Inl e, s)
                  | Inr profiles \<Rightarrow>
                      (case py_iter profiles of
                         Inl e \<Rightarrow> (Inl e, s)
                       | Inr elements \<Rightarrow>
                           (case store_profiles elements (profiles_data s) of
                              (Some e, pd) \<Rightarrow> (Inl e, s\<lparr>profiles_data := pd\<rparr>)
                            | (None, pd) \<Rightarrow>
                                (Inr \<lparr>status_code = 200,
                                      body = [(''success'', RBool True),
                                              (''profiles_count'', RInt (int (length pd))),
                                              (''message'',
                                               RStr (''Stored '' @ str_nat (length elements) @
                                                     '' profiles''))]\<rparr>,
                                 s\<lparr>profiles_data := pd\<rparr>))))))"

text \<open>
  The key under which the loop stores a profile dict: the hashed value of its
  \<open>profileUrl\<close>, when it has one that can be hashed.
\<close>

definition stored_key :: "profile_obj \<Rightarrow> jval option" where
  "stored_key obj =
     (case map_of obj ''profileUrl'' of
        None \<Rightarrow> None
      | Some url \<Rightarrow> (case dict_key url of Inl e \<Rightarrow> None | Inr k \<Rightarrow> Some k))"

text \<open>A profile dict whose \<open>profileUrl\<close>, when present, can be hashed.\<close>

definition hashable_url :: "profile_obj \<Rightarrow> bool" where
  "hashable_url obj =
     (case map_of obj ''profileUrl'' of
        None \<Rightarrow> True
      | Some url \<Rightarrow> (case dict_key url of Inl e \<Rightarrow> False | Inr k \<Rightarrow> True))"

subsection \<open>\<open>record_connection\<close>\<close>

text \<open>
  The handler reads the clock up to three times: in \<open>check_rate_limit\<close> (\<open>t1\<close>), in
  \<open>update_rate_limit\<close> (\<open>t2\<close>) and for the default of \<open>data.get('timestamp', ...)\<close>
  (\<open>t3\<close>). The result is the response, or the exception that leaves the handler, and
  the state after the call. The body of a connection request is a dict whose values
  are strings, numbers or null (\<open>jobj\<close>), as a well-formed request has them. Logging
  is not modelled.
\<close>

definition mark_connected ::
  "jval \<Rightarrow> jval \<Rightarrow> (jval \<times> profile_obj) list \<Rightarrow> (jval \<times> profile_obj) list" where
  "mark_connected profile_url timestamp pd =
     (case map_of pd profile_url of
        None \<Rightarrow> pd
      | Some profile \<Rightarrow>
          AList.update profile_url
            (AList.update ''connectionTimestamp'' (Scalar timestamp)
               (AList.update ''status'' (Scalar (JStr ''connected'')) profile)) pd)"

definition record_connection ::
  "int \<Rightarrow> real \<Rightarrow> real \<Rightarrow> real \<Rightarrow> jobj request \<Rightarrow> app_state \<Rightarrow> (exn + response) \<times> app_state" where
  "record_connection max_requests t1 t2 t3 req s =
     (case req of
        NotJson \<Rightarrow>
          (Inr \<lparr>status_code = 400, body = [(''error'', RStr ''Request must be JSON'')]\<rparr>, s)
      | Json data \<Rightarrow>
          if data = [] \<or> \<not> has_key (map_of data) ''profileUrl'' then
            (Inr \<lparr>status_code = 400, body = [(''error'', RStr ''No profile URL provided'')]\<rparr>, s)
          else
            (case check_rate_limit max_requests t1 s of
               (True, s1) \<Rightarrow>
                 (Inr \<lparr>status_code = 429,
                       body = [(''error'', RStr ''Rate limit exceeded''),
                               (''message'',
                                RStr (''Maximum of '' @ str_int max_requests @
                                      '' connections per hour allowed''))]\<rparr>,
                  s1)
             | (False, s1) \<Rightarrow>
                 (let s2 = update_rate_limit t2 s1
                  in case subscript data ''profileUrl'' of
                       Inl e \<Rightarrow> (Inl e, s2)
                     | Inr profile_url \<Rightarrow>
                         (let connection_record =
                                [(''profileUrl'', profile_url),
                                 (''timestamp'', dict_get (map_of data) ''timestamp'' (JNum t3)),
                                 (''messageUsed'', dict_get (map_of data) ''messageUsed'' JNull)];
                              history = connection_history s2 @ [connection_record];
                              s3 = s2\<lparr>connection_history := history,
                                      profiles_data :=
                                        mark_connected profile_url
                                          (dict_get (map_of data) ''timestamp'' (JNum t3))
                                          (profiles_data s2)\<rparr>
                          in (Inr \<lparr>status_code = 200,
                                   body = [(''success'', RBool True),
                                           (''connections_count'', RInt (int (length history))),
                                           (''message'', RStr ''Connection recorded successfully'')]\<rparr>,
                              s3)))))"

section \<open>Properties of the message generator\<close>

subsection \<open>Auxiliary facts\<close>

lemma tv_simps:
  "template_vars p ''name'' = Some (dict_get p ''name'' (Str ''there''))"
  "template_vars p ''title'' = Some (dict_get p ''title'' (Str ''professional''))"
  "template_vars p ''company'' = Some (dict_get p ''company'' (Str ''your company''))"
  "template_vars p ''school'' = Some (dict_get p ''school'' (Str ''our shared alma mater''))"
  "template_vars p ''industry'' = Some (dict_get p ''industry'' (Str ''this field''))"
  "template_vars p ''your_role'' = Some (dict_get p ''your_role'' (Str ''aspiring professional''))"
  "template_vars p ''current_role'' = Some (dict_get p ''title'' (Str ''current position''))"
  by (simp_all add: template_vars_def template_vars_list_def)

lemma template_vars_dom:
  "dom (template_vars p) =
     {''name'', ''title'', ''company'', ''school'', ''industry'', ''your_role'', ''current_role''}"
  by (simp add: template_vars_def template_vars_list_def dom_map_of_conv_image_fst insert_commute)

lemma pool_lengths:
  "length RECRUITER_FALLBACK = 4" "length ALUMNI_FALLBACK = 4"
  by (simp_all add: RECRUITER_FALLBACK_def ALUMNI_FALLBACK_def)

lemma pools_distinct: "distinct (RECRUITER_FALLBACK @ ALUMNI_FALLBACK)"
  by (simp add: RECRUITER_FALLBACK_def ALUMNI_FALLBACK_def)

lemma format_recruiter_total:
  "t \<in> set RECRUITER_FALLBACK \<Longrightarrow> \<exists>s. format t (template_vars p) = Inr s"
  unfolding RECRUITER_FALLBACK_def by (auto simp: format_def tv_simps)

lemma format_alumni_total:
  "t \<in> set ALUMNI_FALLBACK \<Longrightarrow> \<exists>s. format t (template_vars p) = Inr s"
  unfolding ALUMNI_FALLBACK_def by (auto simp: format_def tv_simps)

lemma py_lower_title:
  "has_str_title p \<Longrightarrow> py_lower (dict_get p ''title'' (Str d)) = Inr (lower (title_text p d))"
  by (auto simp: has_str_title_def dict_get_def title_text_def split: option.splits pyval.splits)

lemma py_lower_nonstr_title:
  "\<not> has_str_title p \<Longrightarrow> py_lower (dict_get p ''title'' d) = Inl AttributeError"
  by (auto simp: has_str_title_def dict_get_def split: option.splits pyval.splits)

lemma pool_of_length: "length (pool_of c) = (if c = Generic then 8 else 4)"
  by (cases c) (simp_all add: pool_lengths)

lemma pool_of_nonempty: "pool_of c \<noteq> []"
  using pool_of_length[of c] by (auto split: if_splits)

lemma pool_of_distinct: "distinct (pool_of c)"
  using pools_distinct by (cases c) auto

lemma choose_template_pool:
  "choose_template (sublist ''recruit'' (lower (title_text p []))) (has_key p ''school'') r =
     Inr (pool_of (classify_fallback p) ! (r mod length (pool_of (classify_fallback p))))"
  using pool_of_nonempty[of Recruiter] pool_of_nonempty[of Alumni] pool_of_nonempty[of Generic]
  by (simp add: choose_template_def classify_fallback_def random_choice_def Let_def)

lemma fallback_as_pool:
  "has_str_title p \<Longrightarrow>
   get_fallback_message p r =
     format (pool_of (classify_fallback p) ! (r mod length (pool_of (classify_fallback p))))
       (template_vars p)"
  by (simp add: get_fallback_message_def py_lower_title choose_template_pool Let_def)


lemma format_pool_total:
  "t \<in> set (pool_of c) \<Longrightarrow> \<exists>s. format t (template_vars p) = Inr s"
  by (cases c) (auto dest: format_recruiter_total format_alumni_total)

lemma count_list_distinct: "distinct xs \<Longrightarrow> x \<in> set xs \<Longrightarrow> count_list xs x = 1"
  by (induction xs) auto

lemma choice_prob_distinct:
  "distinct xs \<Longrightarrow> x \<in> set xs \<Longrightarrow> choice_prob xs x = 1 / of_nat (length xs)"
  by (simp add: choice_prob_def count_list_distinct)

lemma fallback_returns:
  assumes "has_str_title p"
  shows "\<exists>s. get_fallback_message p r = Inr s"
proof -
  let ?pool = "pool_of (classify_fallback p)"
  have "r mod length ?pool < length ?pool"
    using pool_of_nonempty[of "classify_fallback p"] by simp
  then have "?pool ! (r mod length ?pool) \<in> set ?pool"
    by (rule nth_mem)
  then show ?thesis
    using format_pool_total fallback_as_pool[OF assms] by metis
qed

lemma extract_details_str:
  "has_str_title p \<Longrightarrow>
   extract_details p = Inr
     \<lparr> pf_name = dict_get p ''name'' (Str ''there''),
       pf_title = lower (title_text p ''professional''),
       pf_company = dict_get p ''company'' (Str ''your company''),
       pf_school = dict_get p ''school'' (Str ''our alma mater''),
       pf_industry = dict_get p ''industry'' (Str ''this field''),
       pf_your_role = dict_get p ''your_role'' (Str ''aspiring professional'') \<rparr>"
  by (simp add: extract_details_def py_lower_title)

lemma extract_details_nonstr:
  "\<not> has_str_title p \<Longrightarrow> extract_details p = Inl AttributeError"
  by (simp add: extract_details_def py_lower_nonstr_title)

lemma build_prompt_str:
  assumes "has_str_title p" and "extract_details p = Inr f"
  shows "build_prompt p = Inr (prompt_preamble f @ goal_clause (classify_prompt p) f)"
  using assms extract_details_str[OF assms(1)]
  by (auto simp: build_prompt_def classify_prompt_def Let_def)

lemma build_prompt_fails_iff:
  "build_prompt p = Inl e \<longleftrightarrow> \<not> has_str_title p \<and> e = AttributeError"
proof (cases "has_str_title p")
  case True
  then show ?thesis
    using extract_details_str[OF True] by (auto simp: build_prompt_def Let_def)
next
  case False
  then show ?thesis
    using extract_details_nonstr[OF False] by (auto simp: build_prompt_def)
qed

lemma empty_profile_outputs:
  "map (\<lambda>t. format t (template_vars Map.empty)) (RECRUITER_FALLBACK @ ALUMNI_FALLBACK) =
    [Inr ''I'm currently exploring internship opportunities in this field and would appreciate connecting with someone from your company's talent team.'',
     Inr ''As a aspiring professional passionate about this field, I'd love to connect with your company's recruitment team to stay updated on future opportunities.'',
     Inr ''I'm impressed by your company's work in this field and would welcome the chance to connect with your recruitment team.'',
     Inr ''Would love to stay connected with your company's talent acquisition team as I explore internship opportunities in this field.'',
     Inr ''As a fellow our shared alma mater graduate currently exploring this field opportunities, I'd love to connect and hear about your journey from our shared alma mater to current position at your company.'',
     Inr ''I noticed we both attended our shared alma mater - would you be open to sharing how your experience there helped shape your path to current position at your company?'',
     Inr ''As a current our shared alma mater student interested in this field, I'd appreciate connecting with alumni like yourself to learn about your career journey.'',
     Inr ''Your path from our shared alma mater to current position at your company is inspiring! Would you be open to connecting and sharing some career insights?'']"
  by code_simp

lemma empty_profile_outputs_ok:
  "\<forall>res \<in> set (map (\<lambda>t. format t (template_vars Map.empty)) (RECRUITER_FALLBACK @ ALUMNI_FALLBACK)).
     \<exists>s. res = Inr s \<and> CHR ''{'' \<notin> set s \<and> CHR ''}'' \<notin> set s
        \<and> (sublist ''your company'' s \<or> sublist ''our shared alma mater'' s)"
  unfolding empty_profile_outputs
  apply (simp only: list.set ball_simps Un_iff)
  apply (intro conjI)
  subgoal by (rule exI, rule conjI, rule refl) code_simp
  subgoal by (rule exI, rule conjI, rule refl) code_simp
  subgoal by (rule exI, rule conjI, rule refl) code_simp
  subgoal by (rule exI, rule conjI, rule refl) code_simp
  subgoal by (rule exI, rule conjI, rule refl) code_simp
  subgoal by (rule exI, rule conjI, rule refl) code_simp
  subgoal by (rule exI, rule conjI, rule refl) code_simp
  subgoal by (rule exI, rule conjI, rule refl) code_simp
  subgoal by (rule TrueI)
  done

lemma has_str_title_empty: "has_str_title Map.empty"
  by (simp add: has_str_title_def)

lemma classify_fallback_empty: "classify_fallback Map.empty = Generic"
  by code_simp

lemma fallback_empty_profile:
  "\<exists>s. get_fallback_message Map.empty r = Inr s
       \<and> CHR ''{'' \<notin> set s \<and> CHR ''}'' \<notin> set s
       \<and> (sublist ''your company'' s \<or> sublist ''our shared alma mater'' s)"
proof -
  let ?pool = "RECRUITER_FALLBACK @ ALUMNI_FALLBACK"
  have g: "get_fallback_message Map.empty r = format (?pool ! (r mod 8)) (template_vars Map.empty)"
    using fallback_as_pool[OF has_str_title_empty, of r]
    by (simp add: classify_fallback_empty pool_lengths)
  have "r mod 8 < length ?pool"
    by (simp add: pool_lengths)
  then have "format (?pool ! (r mod 8)) (template_vars Map.empty)
      \<in> set (map (\<lambda>t. format t (template_vars Map.empty)) ?pool)"
    by (simp del: set_append map_append)
  then show ?thesis
    using empty_profile_outputs_ok g by auto
qed

lemma format_pools_rendered:
  "map (\<lambda>t. format t (template_vars p)) (RECRUITER_FALLBACK @ ALUMNI_FALLBACK) =
     rendered_templates
       (render (case p ''industry'' of None \<Rightarrow> Str ''this field'' | Some v \<Rightarrow> v))
       (render (case p ''company'' of None \<Rightarrow> Str ''your company'' | Some v \<Rightarrow> v))
       (render (case p ''your_role'' of None \<Rightarrow> Str ''aspiring professional'' | Some v \<Rightarrow> v))
       (render (case p ''school'' of None \<Rightarrow> Str ''our shared alma mater'' | Some v \<Rightarrow> v))
       (render (case p ''title'' of None \<Rightarrow> Str ''current position'' | Some v \<Rightarrow> v))"
  by (simp add: RECRUITER_FALLBACK_def ALUMNI_FALLBACK_def format_def tv_simps dict_get_def
      rendered_templates_def)

subsection \<open>Claims about the generator\<close>

text \<open>
  Claim C1: for every ProfileRecord, \<open>generate_message\<close> returns a non-empty string and
  never raises, also when a provider credential (\<open>DEEPSEEK_API_KEY\<close>) is configured.

  The code does not do this. With a credential configured, the \<open>try\<close> block extracts the
  fields and builds the prompt, and ends there: the provider call is left out (the
  comment says to keep the existing call) and nothing is returned, so the call yields
  \<open>None\<close>. The theorem evaluates the function at the test profile of the module's own
  \<open>__main__\<close> block, with the credential \<open>sk-test\<close>, for any random draw \<open>r\<close>.
\<close>
theorem generate_message_with_key_returns_None:
  "generate_message (Some ''sk-test'')
     [''name'' \<mapsto> Str ''John Smith'', ''title'' \<mapsto> Str ''Software Engineer'',
      ''company'' \<mapsto> Str ''Tech Innovations''] r = Inr None"
  by (simp add: generate_message_def falsy_key_def build_prompt_def extract_details_def
      dict_get_def Let_def)

text \<open>
  Claim C2: in the prompt-building path the title is lower-cased (a missing title is the
  fixed default \<open>professional\<close>); if it contains \<open>recruit\<close> or \<open>talent\<close> the category is
  Recruiter; otherwise, if the record has the key \<open>school\<close>, it is Alumni; otherwise
  Generic. The recruiter test comes first, so a recruiter-like title with a school is
  Recruiter.

  For a profile whose title is missing or a string, the prompt that \<open>generate_message\<close>
  builds is the preamble followed by the goal clause of \<open>classify_prompt\<close>, and
  \<open>classify_prompt\<close> is Recruiter exactly when the lower-cased title contains \<open>recruit\<close>
  or \<open>talent\<close> (whether or not \<open>school\<close> is present), Alumni exactly when it does not
  and \<open>school\<close> is present, Generic exactly when it does not and \<open>school\<close> is absent.
\<close>
theorem prompt_classification:
  assumes "has_str_title p"
  shows "\<exists>f. extract_details p = Inr f
           \<and> pf_title f = lower (title_text p ''professional'')
           \<and> build_prompt p = Inr (prompt_preamble f @ goal_clause (classify_prompt p) f)
           \<and> (classify_prompt p = Recruiter \<longleftrightarrow>
                sublist ''recruit'' (pf_title f) \<or> sublist ''talent'' (pf_title f))
           \<and> (classify_prompt p = Alumni \<longleftrightarrow>
                \<not> (sublist ''recruit'' (pf_title f) \<or> sublist ''talent'' (pf_title f))
                \<and> has_key p ''school'')
           \<and> (classify_prompt p = Generic \<longleftrightarrow>
                \<not> (sublist ''recruit'' (pf_title f) \<or> sublist ''talent'' (pf_title f))
                \<and> \<not> has_key p ''school'')"
proof -
  let ?f = "\<lparr> pf_name = dict_get p ''name'' (Str ''there''),
       pf_title = lower (title_text p ''professional''),
       pf_company = dict_get p ''company'' (Str ''your company''),
       pf_school = dict_get p ''school'' (Str ''our alma mater''),
       pf_industry = dict_get p ''industry'' (Str ''this field''),
       pf_your_role = dict_get p ''your_role'' (Str ''aspiring professional'') \<rparr>"
  have f: "extract_details p = Inr ?f"
    by (rule extract_details_str[OF assms])
  have b: "build_prompt p = Inr (prompt_preamble ?f @ goal_clause (classify_prompt p) ?f)"
    by (rule build_prompt_str[OF assms f])
  have c: "(classify_prompt p = Recruiter \<longleftrightarrow>
                sublist ''recruit'' (pf_title ?f) \<or> sublist ''talent'' (pf_title ?f))
           \<and> (classify_prompt p = Alumni \<longleftrightarrow>
                \<not> (sublist ''recruit'' (pf_title ?f) \<or> sublist ''talent'' (pf_title ?f))
                \<and> has_key p ''school'')
           \<and> (classify_prompt p = Generic \<longleftrightarrow>
                \<not> (sublist ''recruit'' (pf_title ?f) \<or> sublist ''talent'' (pf_title ?f))
                \<and> \<not> has_key p ''school'')"
    by (simp add: classify_prompt_def Let_def)
  show ?thesis
    using f b c by (intro exI[of _ ?f]) simp
qed

theorem prompt_classification_witness:
  "has_str_title [''title'' \<mapsto> Str ''Recruiter'', ''school'' \<mapsto> Str ''State U'']
   \<and> classify_prompt [''title'' \<mapsto> Str ''Recruiter'', ''school'' \<mapsto> Str ''State U''] = Recruiter
   \<and> (\<exists>f. build_prompt [''title'' \<mapsto> Str ''Recruiter'', ''school'' \<mapsto> Str ''State U'']
             = Inr (prompt_preamble f @ recruiter_goal f))"
proof -
  let ?p = "[''title'' \<mapsto> Str ''Recruiter'', ''school'' \<mapsto> Str ''State U'']"
  have h: "has_str_title ?p"
    by (simp add: has_str_title_def)
  have c: "classify_prompt ?p = Recruiter"
    by code_simp
  from prompt_classification[OF h] c h show ?thesis
    by auto
qed

text \<open>
  Claim C3: the recruiter test of the fallback renderer is the substring \<open>recruit\<close> only.
  For every profile whose lower-cased title contains \<open>talent\<close> but not \<open>recruit\<close> and
  which has no key \<open>school\<close>, \<open>get_fallback_message\<close> classifies it as generic and takes
  its template from the union pool, not from the recruiter pool.

  For such a profile the message is the rendering of the template at index \<open>r mod 8\<close> of
  the union of the two pools; the draws \<open>4 + k mod 4\<close> give the alumni templates, none
  of which is in the recruiter pool. The prompt-building path classifies the same
  profile as Recruiter.
\<close>
theorem talent_title_is_generic_in_fallback:
  assumes "p ''title'' = Some (Str t)"
    and "sublist ''talent'' (lower t)"
    and "\<not> sublist ''recruit'' (lower t)"
    and "\<not> has_key p ''school''"
  shows "classify_fallback p = Generic
       \<and> classify_prompt p = Recruiter
       \<and> get_fallback_message p r =
           format ((RECRUITER_FALLBACK @ ALUMNI_FALLBACK) ! (r mod 8)) (template_vars p)
       \<and> get_fallback_message p (4 + k mod 4) =
           format (ALUMNI_FALLBACK ! (k mod 4)) (template_vars p)
       \<and> ALUMNI_FALLBACK ! (k mod 4) \<notin> set RECRUITER_FALLBACK"
proof -
  have h: "has_str_title p"
    using assms(1) by (simp add: has_str_title_def)
  have tt: "title_text p d = t" for d
    using assms(1) by (simp add: title_text_def)
  have cf: "classify_fallback p = Generic"
    using assms by (simp add: classify_fallback_def tt)
  have cp: "classify_prompt p = Recruiter"
    using assms by (simp add: classify_prompt_def tt)
  have g: "get_fallback_message p r' =
           format ((RECRUITER_FALLBACK @ ALUMNI_FALLBACK) ! (r' mod 8)) (template_vars p)" for r'
    using fallback_as_pool[OF h, of r'] by (simp add: cf pool_lengths)
  have "(4 + k mod 4) mod 8 = 4 + k mod 4"
    by (rule mod_less) arith
  then have a: "get_fallback_message p (4 + k mod 4) =
           format (ALUMNI_FALLBACK ! (k mod 4)) (template_vars p)"
    using g[of "4 + k mod 4"] by (simp add: nth_append pool_lengths)
  have "k mod 4 < length ALUMNI_FALLBACK"
    by (simp add: pool_lengths)
  then have "ALUMNI_FALLBACK ! (k mod 4) \<in> set ALUMNI_FALLBACK"
    by (rule nth_mem)
  then have n: "ALUMNI_FALLBACK ! (k mod 4) \<notin> set RECRUITER_FALLBACK"
    using pools_distinct by auto
  show ?thesis
    using cf cp g a n by simp
qed

theorem talent_title_is_generic_in_fallback_witness:
  "[''title'' \<mapsto> Str ''Talent Partner''] ''title'' = Some (Str ''Talent Partner'')
   \<and> sublist ''talent'' (lower ''Talent Partner'')
   \<and> \<not> sublist ''recruit'' (lower ''Talent Partner'')
   \<and> \<not> has_key [''title'' \<mapsto> Str ''Talent Partner''] ''school''
   \<and> classify_fallback [''title'' \<mapsto> Str ''Talent Partner''] = Generic
   \<and> get_fallback_message [''title'' \<mapsto> Str ''Talent Partner''] 5 =
       Inr ''I noticed we both attended our shared alma mater - would you be open to sharing how your experience there helped shape your path to Talent Partner at your company?''"
proof -
  let ?p = "[''title'' \<mapsto> Str ''Talent Partner'']"
  have 1: "?p ''title'' = Some (Str ''Talent Partner'')" by simp
  have 2: "sublist ''talent'' (lower ''Talent Partner'')" by code_simp
  have 3: "\<not> sublist ''recruit'' (lower ''Talent Partner'')" by code_simp
  have 4: "\<not> has_key ?p ''school''" by (simp add: has_key_def)
  have 5: "format ((RECRUITER_FALLBACK @ ALUMNI_FALLBACK) ! (5 mod 8)) (template_vars ?p) =
       Inr ''I noticed we both attended our shared alma mater - would you be open to sharing how your experience there helped shape your path to Talent Partner at your company?''"
    by code_simp
  from talent_title_is_generic_in_fallback[OF 1 2 3 4, of 5 0] 1 2 3 4 5 show ?thesis
    by simp
qed

text \<open>
  Claim C4: \<open>get_fallback_message\<close> chooses uniformly at random from the Recruiter pool
  (4 templates) when recruiter-classified, from the Alumni pool (4 templates) when
  alumni-classified, and from the union of both (8 templates) when generic; every output
  is the rendering of a template of that pool, and for a generic profile templates of
  both pools occur with positive probability.

  For a profile whose title is missing or a string: the pools have 4, 4 and 8 templates,
  all different; the message for the draw \<open>r\<close> is the rendering of the template at index
  \<open>r mod length pool\<close> of the pool of the profile's category; and every template of that
  pool has probability \<open>1 / length pool\<close> under \<open>random.choice\<close>, is rendered without
  an error, and is the message of some draw.
\<close>
theorem fallback_pool_choice:
  assumes "has_str_title p"
  shows "length RECRUITER_FALLBACK = 4 \<and> length ALUMNI_FALLBACK = 4
       \<and> length (RECRUITER_FALLBACK @ ALUMNI_FALLBACK) = 8
       \<and> distinct (RECRUITER_FALLBACK @ ALUMNI_FALLBACK)
       \<and> get_fallback_message p r =
           format (pool_of (classify_fallback p) ! (r mod length (pool_of (classify_fallback p))))
             (template_vars p)
       \<and> (\<forall>t \<in> set (pool_of (classify_fallback p)).
             choice_prob (pool_of (classify_fallback p)) t =
               1 / of_nat (length (pool_of (classify_fallback p)))
           \<and> (\<exists>r' s. get_fallback_message p r' = Inr s \<and> format t (template_vars p) = Inr s))"
proof -
  let ?pool = "pool_of (classify_fallback p)"
  have reach: "\<exists>r' s. get_fallback_message p r' = Inr s \<and> format t (template_vars p) = Inr s"
    if t: "t \<in> set ?pool" for t
  proof -
    from t obtain i where i: "i < length ?pool" "?pool ! i = t"
      by (auto simp: in_set_conv_nth)
    then have "get_fallback_message p i = format t (template_vars p)"
      using fallback_as_pool[OF assms, of i] by simp
    moreover obtain s where "format t (template_vars p) = Inr s"
      using format_pool_total[OF t] by blast
    ultimately show ?thesis by auto
  qed
  have prob: "choice_prob ?pool t = 1 / of_nat (length ?pool)" if "t \<in> set ?pool" for t
    using that by (rule choice_prob_distinct[OF pool_of_distinct])
  show ?thesis
    using pools_distinct fallback_as_pool[OF assms] reach prob by (simp add: pool_lengths)
qed

theorem fallback_pool_choice_witness:
  "has_str_title [''name'' \<mapsto> Str ''Jane'', ''title'' \<mapsto> Str ''Technical Recruiter'',
                  ''company'' \<mapsto> Str ''Acme'']
   \<and> pool_of (classify_fallback [''name'' \<mapsto> Str ''Jane'',
         ''title'' \<mapsto> Str ''Technical Recruiter'', ''company'' \<mapsto> Str ''Acme'']) =
       RECRUITER_FALLBACK
   \<and> get_fallback_message [''name'' \<mapsto> Str ''Jane'', ''title'' \<mapsto> Str ''Technical Recruiter'',
         ''company'' \<mapsto> Str ''Acme''] 6 =
       Inr ''I'm impressed by Acme's work in this field and would welcome the chance to connect with your recruitment team.''"
proof -
  let ?p = "[''name'' \<mapsto> Str ''Jane'', ''title'' \<mapsto> Str ''Technical Recruiter'',
             ''company'' \<mapsto> Str ''Acme'']"
  have h: "has_str_title ?p"
    by (simp add: has_str_title_def)
  have c: "classify_fallback ?p = Recruiter"
    by code_simp
  have f: "format (RECRUITER_FALLBACK ! (6 mod 4)) (template_vars ?p) =
       Inr ''I'm impressed by Acme's work in this field and would welcome the chance to connect with your recruitment team.''"
    by code_simp
  from fallback_pool_choice[OF h, of 6] h c f show ?thesis
    by (simp add: pool_lengths)
qed

text \<open>
  Claim C5: \<open>get_fallback_message\<close> resolves all seven variables before substitution
  (name \<open>there\<close>, title \<open>professional\<close>, company \<open>your company\<close>, school
  \<open>our shared alma mater\<close>, industry \<open>this field\<close>, your\_role \<open>aspiring professional\<close>
  when the field is absent, current\_role from the title with default
  \<open>current position\<close>); substitution never raises; and \<open>get_fallback_message({})\<close> is a
  string with no placeholder token left and with at least one default value in it.

  The dict \<open>template_vars\<close> has exactly the seven keys, each with the field's value or
  its default. For a profile whose title is missing or a string, the message is
  \<open>format\<close> of the chosen template of the profile's pool with this dict, and it is a
  string. For every profile, \<open>format\<close> turns the eight templates into the eight texts
  listed, with the resolved values of industry, company, your\_role, school and
  current\_role in the places of the placeholders; so it never raises. For the empty
  profile every draw gives a string without any brace that contains \<open>your company\<close> or
  \<open>our shared alma mater\<close>.
\<close>

theorem fallback_variables_resolved:
  "dom (template_vars p) =
     {''name'', ''title'', ''company'', ''school'', ''industry'', ''your_role'', ''current_role''}
   \<and> template_vars p ''name'' = Some (case p ''name'' of None \<Rightarrow> Str ''there'' | Some v \<Rightarrow> v)
   \<and> template_vars p ''title'' =
       Some (case p ''title'' of None \<Rightarrow> Str ''professional'' | Some v \<Rightarrow> v)
   \<and> template_vars p ''company'' =
       Some (case p ''company'' of None \<Rightarrow> Str ''your company'' | Some v \<Rightarrow> v)
   \<and> template_vars p ''school'' =
       Some (case p ''school'' of None \<Rightarrow> Str ''our shared alma mater'' | Some v \<Rightarrow> v)
   \<and> template_vars p ''industry'' =
       Some (case p ''industry'' of None \<Rightarrow> Str ''this field'' | Some v \<Rightarrow> v)
   \<and> template_vars p ''your_role'' =
       Some (case p ''your_role'' of None \<Rightarrow> Str ''aspiring professional'' | Some v \<Rightarrow> v)
   \<and> template_vars p ''current_role'' =
       Some (case p ''title'' of None \<Rightarrow> Str ''current position'' | Some v \<Rightarrow> v)
   \<and> (has_str_title p \<longrightarrow>
        get_fallback_message p r =
          format (pool_of (classify_fallback p) ! (r mod length (pool_of (classify_fallback p))))
            (template_vars p)
        \<and> (\<exists>s. get_fallback_message p r = Inr s))
   \<and> map (\<lambda>t. format t (template_vars p)) (RECRUITER_FALLBACK @ ALUMNI_FALLBACK) =
        rendered_templates
          (render (case p ''industry'' of None \<Rightarrow> Str ''this field'' | Some v \<Rightarrow> v))
          (render (case p ''company'' of None \<Rightarrow> Str ''your company'' | Some v \<Rightarrow> v))
          (render (case p ''your_role'' of None \<Rightarrow> Str ''aspiring professional'' | Some v \<Rightarrow> v))
          (render (case p ''school'' of None \<Rightarrow> Str ''our shared alma mater'' | Some v \<Rightarrow> v))
          (render (case p ''title'' of None \<Rightarrow> Str ''current position'' | Some v \<Rightarrow> v))
   \<and> (\<exists>s. get_fallback_message Map.empty r = Inr s
          \<and> CHR ''{'' \<notin> set s \<and> CHR ''}'' \<notin> set s
          \<and> (sublist ''your company'' s \<or> sublist ''our shared alma mater'' s))"
proof -
  have ret: "has_str_title p \<longrightarrow>
        get_fallback_message p r =
          format (pool_of (classify_fallback p) ! (r mod length (pool_of (classify_fallback p))))
            (template_vars p)
        \<and> (\<exists>s. get_fallback_message p r = Inr s)"
    using fallback_returns fallback_as_pool by blast
  have vars: "dom (template_vars p) =
     {''name'', ''title'', ''company'', ''school'', ''industry'', ''your_role'', ''current_role''}
   \<and> template_vars p ''name'' = Some (case p ''name'' of None \<Rightarrow> Str ''there'' | Some v \<Rightarrow> v)
   \<and> template_vars p ''title'' =
       Some (case p ''title'' of None \<Rightarrow> Str ''professional'' | Some v \<Rightarrow> v)
   \<and> template_vars p ''company'' =
       Some (case p ''company'' of None \<Rightarrow> Str ''your company'' | Some v \<Rightarrow> v)
   \<and> template_vars p ''school'' =
       Some (case p ''school'' of None \<Rightarrow> Str ''our shared alma mater'' | Some v \<Rightarrow> v)
   \<and> template_vars p ''industry'' =
       Some (case p ''industry'' of None \<Rightarrow> Str ''this field'' | Some v \<Rightarrow> v)
   \<and> template_vars p ''your_role'' =
       Some (case p ''your_role'' of None \<Rightarrow> Str ''aspiring professional'' | Some v \<Rightarrow> v)
   \<and> template_vars p ''current_role'' =
       Some (case p ''title'' of None \<Rightarrow> Str ''current position'' | Some v \<Rightarrow> v)"
    using template_vars_dom[of p] by (simp add: tv_simps dict_get_def)
  from vars ret format_pools_rendered[of p] fallback_empty_profile[of r] show ?thesis
    by (elim conjE, intro conjI) assumption+
qed

theorem fallback_variables_resolved_witness:
  "has_str_title [''title'' \<mapsto> Str ''Data Scientist'', ''company'' \<mapsto> Str ''Globex'',
                  ''school'' \<mapsto> Str ''Tech U'']
   \<and> template_vars [''title'' \<mapsto> Str ''Data Scientist'', ''company'' \<mapsto> Str ''Globex'',
                  ''school'' \<mapsto> Str ''Tech U''] ''name'' = Some (Str ''there'')
   \<and> template_vars [''title'' \<mapsto> Str ''Data Scientist'', ''company'' \<mapsto> Str ''Globex'',
                  ''school'' \<mapsto> Str ''Tech U''] ''current_role'' = Some (Str ''Data Scientist'')
   \<and> pool_of (classify_fallback [''title'' \<mapsto> Str ''Data Scientist'',
         ''company'' \<mapsto> Str ''Globex'', ''school'' \<mapsto> Str ''Tech U'']) = ALUMNI_FALLBACK
   \<and> get_fallback_message [''title'' \<mapsto> Str ''Data Scientist'', ''company'' \<mapsto> Str ''Globex'',
         ''school'' \<mapsto> Str ''Tech U''] 1 =
       Inr ''I noticed we both attended Tech U - would you be open to sharing how your experience there helped shape your path to Data Scientist at Globex?''"
proof -
  let ?p = "[''title'' \<mapsto> Str ''Data Scientist'', ''company'' \<mapsto> Str ''Globex'',
             ''school'' \<mapsto> Str ''Tech U'']"
  let ?out = "Inr ''I noticed we both attended Tech U - would you be open to sharing how your experience there helped shape your path to Data Scientist at Globex?''"
  have h: "has_str_title ?p"
    by (simp add: has_str_title_def)
  have c: "classify_fallback ?p = Alumni"
    by code_simp
  have i: "(RECRUITER_FALLBACK @ ALUMNI_FALLBACK) ! 5 = ALUMNI_FALLBACK ! (1 mod 4)"
    by (simp add: nth_append pool_lengths)
  have l: "(5::nat) < length (RECRUITER_FALLBACK @ ALUMNI_FALLBACK)"
    by (simp add: pool_lengths)
  have m: "map (\<lambda>t. format t (template_vars ?p)) (RECRUITER_FALLBACK @ ALUMNI_FALLBACK) ! 5 =
      format (ALUMNI_FALLBACK ! (1 mod 4)) (template_vars ?p)"
    by (simp only: nth_map[OF l] i)
  have t: "format (ALUMNI_FALLBACK ! (1 mod 4)) (template_vars ?p) = ?out"
  proof -
    from fallback_variables_resolved[of ?p 1]
    have "map (\<lambda>t. format t (template_vars ?p)) (RECRUITER_FALLBACK @ ALUMNI_FALLBACK) ! 5 = ?out"
      by (simp add: rendered_templates_def)
    then show ?thesis
      by (simp only: m)
  qed
  from fallback_variables_resolved[of ?p 1] h c t show ?thesis
    by (simp add: pool_lengths)
qed

text \<open>
  Claim C6: in the prompt-building path every missing field is replaced by the default of
  the fallback renderer's table, in particular a missing \<open>school\<close> by
  \<open>our shared alma mater\<close>, and prompt building never fails because of a missing field.

  The claim fails at the empty profile: the prompt-building path has its own default for
  \<open>school\<close>, \<open>our alma mater\<close>.
\<close>
theorem prompt_school_default_counterexample:
  "map_sum id pf_school (extract_details Map.empty) = Inr (Str ''our alma mater'')
   \<and> map_sum id pf_school (extract_details Map.empty) \<noteq> Inr (Str ''our shared alma mater'')"
  by (simp add: extract_details_def dict_get_def)

text \<open>
  Claim C6, as the code has it: in the prompt-building path a missing field is replaced
  by a default before the instruction text is built: name \<open>there\<close>, title
  \<open>professional\<close> (then lower-cased), company \<open>your company\<close>, school
  \<open>our alma mater\<close>, industry \<open>this field\<close>, your\_role \<open>aspiring professional\<close>; and
  prompt building never fails because of a missing field: it fails only when the title
  is present and not a string.
\<close>

theorem prompt_defaults:
  "(has_str_title p \<longrightarrow>
      (\<exists>f prompt. extract_details p = Inr f \<and> build_prompt p = Inr prompt
         \<and> pf_name f = (case p ''name'' of None \<Rightarrow> Str ''there'' | Some v \<Rightarrow> v)
         \<and> pf_title f = lower (case p ''title'' of Some (Str s) \<Rightarrow> s | _ \<Rightarrow> ''professional'')
         \<and> pf_company f = (case p ''company'' of None \<Rightarrow> Str ''your company'' | Some v \<Rightarrow> v)
         \<and> pf_school f = (case p ''school'' of None \<Rightarrow> Str ''our alma mater'' | Some v \<Rightarrow> v)
         \<and> pf_industry f = (case p ''industry'' of None \<Rightarrow> Str ''this field'' | Some v \<Rightarrow> v)
         \<and> pf_your_role f =
             (case p ''your_role'' of None \<Rightarrow> Str ''aspiring professional'' | Some v \<Rightarrow> v)))
   \<and> (\<forall>e. build_prompt p = Inl e \<longrightarrow> (\<exists>s. p ''title'' = Some (NonStr s)))"
proof -
  have a: "\<exists>s. p ''title'' = Some (NonStr s)" if "build_prompt p = Inl e" for e
  proof -
    from that have "\<not> has_str_title p"
      by (simp add: build_prompt_fails_iff)
    then show ?thesis
      by (auto simp: has_str_title_def split: option.splits pyval.splits)
  qed
  have b: "\<exists>prompt. build_prompt p = Inr prompt" if "has_str_title p"
    using build_prompt_str[OF that extract_details_str[OF that]] by blast
  show ?thesis
    using a b extract_details_str[of p]
    by (auto simp: dict_get_def title_text_def)
qed

theorem prompt_defaults_witness:
  "has_str_title [''company'' \<mapsto> Str ''Acme'']
   \<and> (\<exists>f. extract_details [''company'' \<mapsto> Str ''Acme''] = Inr f
         \<and> pf_school f = Str ''our alma mater'' \<and> pf_title f = ''professional''
         \<and> pf_company f = Str ''Acme'')
   \<and> build_prompt [''title'' \<mapsto> NonStr ''5''] = Inl AttributeError
   \<and> (\<exists>s. [''title'' \<mapsto> NonStr ''5''] ''title'' = Some (NonStr s))"
proof -
  have h: "has_str_title [''company'' \<mapsto> Str ''Acme'']"
    by (simp add: has_str_title_def)
  have l: "lower ''professional'' = ''professional''"
    by code_simp
  have b: "build_prompt [''title'' \<mapsto> NonStr ''5''] = Inl AttributeError"
    by (simp add: build_prompt_def extract_details_def dict_get_def)
  from prompt_defaults[of "[''company'' \<mapsto> Str ''Acme'']"]
    prompt_defaults[of "[''title'' \<mapsto> NonStr ''5'']"] h l b
  show ?thesis
    by auto
qed




section \<open>Properties of the web layer\<close>

subsection \<open>Auxiliary facts\<close>

lemma find_append_last:
  "find P (xs @ ys) = (case find P xs of None \<Rightarrow> find P ys | Some x \<Rightarrow> Some x)"
  by (induction xs) auto

lemma store_profiles_dict:
  "hashable_url f \<Longrightarrow>
   store_profiles (JObj f # rest) pd =
     store_profiles rest (case stored_key f of None \<Rightarrow> pd | Some k \<Rightarrow> AList.update k f pd)"
  by (auto simp: hashable_url_def stored_key_def has_key_def subscript_def
      split: option.splits sum.splits)

lemma store_profiles_succeeds:
  "\<forall>f \<in> set fs. hashable_url f \<Longrightarrow> fst (store_profiles (map JObj fs) pd) = None"
proof (induction fs arbitrary: pd)
  case Nil
  then show ?case by simp
next
  case (Cons f fs)
  then show ?case
    by (simp add: store_profiles_dict del: store_profiles.simps)
qed

lemma map_of_store_profiles:
  "\<forall>f \<in> set fs. hashable_url f \<Longrightarrow>
   map_of (snd (store_profiles (map JObj fs) pd)) k =
     (case find (\<lambda>f. stored_key f = Some k) (rev fs) of
        Some f \<Rightarrow> Some f
      | None \<Rightarrow> map_of pd k)"
proof (induction fs arbitrary: pd)
  case Nil
  then show ?case by simp
next
  case (Cons f fs)
  then have h: "hashable_url f" and hs: "\<forall>f \<in> set fs. hashable_url f"
    by simp_all
  show ?case
    by (cases "stored_key f")
       (auto simp: store_profiles_dict[OF h] Cons.IH[OF hs] find_append_last update_conv'
          simp del: store_profiles.simps split: option.splits)
qed

lemma keys_store_profiles:
  "\<forall>f \<in> set fs. hashable_url f \<Longrightarrow>
   fst ` set (snd (store_profiles (map JObj fs) pd)) =
     fst ` set pd \<union> {k. \<exists>f \<in> set fs. stored_key f = Some k}"
proof (induction fs arbitrary: pd)
  case Nil
  then show ?case by simp
next
  case (Cons f fs)
  then have h: "hashable_url f" and hs: "\<forall>f \<in> set fs. hashable_url f"
    by simp_all
  show ?case
    by (cases "stored_key f")
       (auto simp: store_profiles_dict[OF h] Cons.IH[OF hs] dom_update
          simp del: store_profiles.simps)
qed

lemma distinct_store_profiles:
  "\<forall>f \<in> set fs. hashable_url f \<Longrightarrow> distinct (map fst pd) \<Longrightarrow>
   distinct (map fst (snd (store_profiles (map JObj fs) pd)))"
proof (induction fs arbitrary: pd)
  case Nil
  then show ?case by simp
next
  case (Cons f fs)
  then have h: "hashable_url f" and hs: "\<forall>f \<in> set fs. hashable_url f"
    by simp_all
  show ?case
    using Cons.prems(2)
    by (cases "stored_key f")
       (auto simp: store_profiles_dict[OF h] distinct_update
          intro!: Cons.IH[OF hs] simp del: store_profiles.simps)
qed

lemma stored_key_str:
  "map_of f ''profileUrl'' = Some (Scalar (JStr u)) \<Longrightarrow> stored_key f = Some (JStr u)"
  by (simp add: stored_key_def)

lemma stored_key_none:
  "\<not> has_key (map_of f) ''profileUrl'' \<Longrightarrow> stored_key f = None"
  by (simp add: stored_key_def has_key_def)

lemma collect_profiles_list:
  assumes "map_of kvs ''profiles'' = Some (JArr ps)"
  shows "collect_profiles (Json (Parsed (JObj kvs))) s =
     (case store_profiles ps (profiles_data s) of
        (Some e, pd) \<Rightarrow> (Inl e, s\<lparr>profiles_data := pd\<rparr>)
      | (None, pd) \<Rightarrow>
          (Inr \<lparr>status_code = 200,
                body = [(''success'', RBool True),
                        (''profiles_count'', RInt (int (length pd))),
                        (''message'', RStr (''Stored '' @ str_nat (length ps) @ '' profiles''))]\<rparr>,
           s\<lparr>profiles_data := pd\<rparr>))"
proof -
  have "kvs \<noteq> []"
    using assms by auto
  then show ?thesis
    using assms by (simp add: collect_profiles_def has_key_def subscript_def)
qed

lemma check_rate_limit_eq:
  "check_rate_limit max_requests now s =
     (max_requests \<le> int (recorded_within_hour now s),
      s\<lparr>request_timestamps := filter (\<lambda>ts. now - 3600 < ts) (request_timestamps s)\<rparr>)"
  by (simp add: check_rate_limit_def recorded_within_hour_def Let_def)

lemma record_connection_rejected:
  assumes "has_key (map_of data) ''profileUrl''"
    and "max_requests \<le> int (recorded_within_hour t1 s)"
  shows "record_connection max_requests t1 t2 t3 (Json data) s =
     (Inr \<lparr>status_code = 429,
           body = [(''error'', RStr ''Rate limit exceeded''),
                   (''message'', RStr (''Maximum of '' @ str_int max_requests @
                                      '' connections per hour allowed''))]\<rparr>,
      s\<lparr>request_timestamps := filter (\<lambda>ts. t1 - 3600 < ts) (request_timestamps s)\<rparr>)"
proof -
  have "data \<noteq> []"
    using assms(1) by (auto simp: has_key_def)
  then show ?thesis
    using assms by (simp add: record_connection_def check_rate_limit_eq)
qed

lemma record_connection_accepted:
  assumes "map_of data ''profileUrl'' = Some url"
    and "int (recorded_within_hour t1 s) < max_requests"
  shows "record_connection max_requests t1 t2 t3 (Json data) s =
     (Inr \<lparr>status_code = 200,
           body = [(''success'', RBool True),
                   (''connections_count'', RInt (int (length (connection_history s)) + 1)),
                   (''message'', RStr ''Connection recorded successfully'')]\<rparr>,
      s\<lparr>request_timestamps :=
           filter (\<lambda>ts. t1 - 3600 < ts) (request_timestamps s) @ [t2],
         connection_history :=
           connection_history s @
             [[(''profileUrl'', url),
               (''timestamp'', dict_get (map_of data) ''timestamp'' (JNum t3)),
               (''messageUsed'', dict_get (map_of data) ''messageUsed'' JNull)]],
         profiles_data :=
           mark_connected url (dict_get (map_of data) ''timestamp'' (JNum t3)) (profiles_data s)\<rparr>)"
proof -
  have "data \<noteq> []" "has_key (map_of data) ''profileUrl''"
    using assms(1) by (auto simp: has_key_def)
  then show ?thesis
    using assms
    by (simp add: record_connection_def check_rate_limit_eq update_rate_limit_def
        subscript_def Let_def)
qed

lemma str_int_2: "str_int 2 = ''2''"
  by code_simp

subsection \<open>Claims about the web layer\<close>

text \<open>
  Claim C8: \<open>record_connection\<close> enforces an hourly cap. When the number of connections
  recorded within the preceding hour has reached \<open>MAX_REQUESTS_PER_HOUR\<close>, a well-formed
  request is rejected with an error response, and the rejected request leaves the
  connection history, the profile store and the rate-limit counter of recorded
  connections unchanged; under the cap, the connection is appended to the history and
  the counter grows by one.

  A well-formed request is a JSON body with the key \<open>profileUrl\<close>; the counter is
  \<open>recorded_within_hour\<close> at the time \<open>t1\<close> of the check. At the cap the response is 429
  \<open>Rate limit exceeded\<close>, history and store are as before, and the timestamp list is
  the old one without the entries older than an hour, with nothing appended, so the
  counter is the same. Under the cap the response is 200, the record is the new last
  entry of the history, the time \<open>t2\<close> read by \<open>update_rate_limit\<close> is appended to the
  pruned timestamps, and the counter is one higher (\<open>t2\<close> being within the hour before
  \<open>t1\<close>, as it is when the clock does not run backwards).
\<close>
theorem record_connection_hourly_cap:
  assumes "has_key (map_of data) ''profileUrl''"
    and "record_connection max_requests t1 t2 t3 (Json data) s = (res, s')"
  shows "(max_requests \<le> int (recorded_within_hour t1 s) \<longrightarrow>
            res = Inr \<lparr>status_code = 429,
                       body = [(''error'', RStr ''Rate limit exceeded''),
                               (''message'', RStr (''Maximum of '' @ str_int max_requests @
                                                  '' connections per hour allowed''))]\<rparr>
            \<and> connection_history s' = connection_history s
            \<and> profiles_data s' = profiles_data s
            \<and> request_timestamps s' = filter (\<lambda>ts. t1 - 3600 < ts) (request_timestamps s)
            \<and> recorded_within_hour t1 s' = recorded_within_hour t1 s)
       \<and> (int (recorded_within_hour t1 s) < max_requests \<longrightarrow>
            (\<exists>url. map_of data ''profileUrl'' = Some url
               \<and> res = Inr \<lparr>status_code = 200,
                       body = [(''success'', RBool True),
                               (''connections_count'', RInt (int (length (connection_history s)) + 1)),
                               (''message'', RStr ''Connection recorded successfully'')]\<rparr>
               \<and> connection_history s' =
                   connection_history s @
                     [[(''profileUrl'', url),
                       (''timestamp'', dict_get (map_of data) ''timestamp'' (JNum t3)),
                       (''messageUsed'', dict_get (map_of data) ''messageUsed'' JNull)]])
            \<and> request_timestamps s' =
                filter (\<lambda>ts. t1 - 3600 < ts) (request_timestamps s) @ [t2]
            \<and> length (request_timestamps s') = recorded_within_hour t1 s + 1
            \<and> (t1 - 3600 < t2 \<longrightarrow> recorded_within_hour t1 s' = recorded_within_hour t1 s + 1))"
proof (cases "max_requests \<le> int (recorded_within_hour t1 s)")
  case True
  from record_connection_rejected[OF assms(1) True, of t2 t3] assms(2)
  have "res = Inr \<lparr>status_code = 429,
                       body = [(''error'', RStr ''Rate limit exceeded''),
                               (''message'', RStr (''Maximum of '' @ str_int max_requests @
                                                  '' connections per hour allowed''))]\<rparr>"
    and "s' = s\<lparr>request_timestamps := filter (\<lambda>ts. t1 - 3600 < ts) (request_timestamps s)\<rparr>"
    by simp_all
  then show ?thesis
    using True by (simp add: recorded_within_hour_def)
next
  case False
  then have lt: "int (recorded_within_hour t1 s) < max_requests"
    by simp
  from assms(1) obtain url where url: "map_of data ''profileUrl'' = Some url"
    by (auto simp: has_key_def)
  from record_connection_accepted[OF url lt, of t2 t3] assms(2)
  have r: "res = Inr \<lparr>status_code = 200,
                       body = [(''success'', RBool True),
                               (''connections_count'', RInt (int (length (connection_history s)) + 1)),
                               (''message'', RStr ''Connection recorded successfully'')]\<rparr>"
    and s': "s' = s\<lparr>request_timestamps :=
           filter (\<lambda>ts. t1 - 3600 < ts) (request_timestamps s) @ [t2],
         connection_history :=
           connection_history s @
             [[(''profileUrl'', url),
               (''timestamp'', dict_get (map_of data) ''timestamp'' (JNum t3)),
               (''messageUsed'', dict_get (map_of data) ''messageUsed'' JNull)]],
         profiles_data :=
           mark_connected url (dict_get (map_of data) ''timestamp'' (JNum t3)) (profiles_data s)\<rparr>"
    by simp_all
  show ?thesis
    using lt url r by (simp add: s' recorded_within_hour_def)
qed

theorem record_connection_hourly_cap_witness:
  "has_key (map_of [(''profileUrl'', JStr ''u1'')]) ''profileUrl''
   \<and> record_connection 2 7200 7201 7202 (Json [(''profileUrl'', JStr ''u1'')])
        \<lparr>profiles_data = [(JStr ''u1'', [(''profileUrl'', Scalar (JStr ''u1''))])],
          connection_history = [], request_timestamps = [100, 5000, 7000]\<rparr> =
      (Inr \<lparr>status_code = 429,
            body = [(''error'', RStr ''Rate limit exceeded''),
                    (''message'', RStr ''Maximum of 2 connections per hour allowed'')]\<rparr>,
       \<lparr>profiles_data = [(JStr ''u1'', [(''profileUrl'', Scalar (JStr ''u1''))])],
         connection_history = [], request_timestamps = [5000, 7000]\<rparr>)
   \<and> record_connection 2 7200 7201 7202 (Json [(''profileUrl'', JStr ''u1'')])
        \<lparr>profiles_data = [(JStr ''u1'', [(''profileUrl'', Scalar (JStr ''u1''))])],
          connection_history = [], request_timestamps = [100, 7000]\<rparr> =
      (Inr \<lparr>status_code = 200,
            body = [(''success'', RBool True), (''connections_count'', RInt 1),
                    (''message'', RStr ''Connection recorded successfully'')]\<rparr>,
       \<lparr>profiles_data =
           [(JStr ''u1'', [(''profileUrl'', Scalar (JStr ''u1'')),
                           (''status'', Scalar (JStr ''connected'')),
                           (''connectionTimestamp'', Scalar (JNum 7202))])],
         connection_history =
           [[(''profileUrl'', JStr ''u1''), (''timestamp'', JNum 7202), (''messageUsed'', JNull)]],
         request_timestamps = [7000, 7201]\<rparr>)"
proof -
  let ?data = "[(''profileUrl'', JStr ''u1'')]"
  let ?full = "\<lparr>profiles_data = [(JStr ''u1'', [(''profileUrl'', Scalar (JStr ''u1''))])],
          connection_history = [], request_timestamps = [100, 5000, 7000]\<rparr>"
  let ?free = "\<lparr>profiles_data = [(JStr ''u1'', [(''profileUrl'', Scalar (JStr ''u1''))])],
          connection_history = [], request_timestamps = [100, 7000]\<rparr>"
  have k: "has_key (map_of ?data) ''profileUrl''"
    by (simp add: has_key_def)
  have r1: "record_connection 2 7200 7201 7202 (Json ?data) ?full =
      (Inr \<lparr>status_code = 429,
            body = [(''error'', RStr ''Rate limit exceeded''),
                    (''message'', RStr ''Maximum of 2 connections per hour allowed'')]\<rparr>,
       \<lparr>profiles_data = [(JStr ''u1'', [(''profileUrl'', Scalar (JStr ''u1''))])],
         connection_history = [], request_timestamps = [5000, 7000]\<rparr>)"
    by (simp add: record_connection_def check_rate_limit_def has_key_def str_int_2 Let_def)
  have r2: "record_connection 2 7200 7201 7202 (Json ?data) ?free =
      (Inr \<lparr>status_code = 200,
            body = [(''success'', RBool True), (''connections_count'', RInt 1),
                    (''message'', RStr ''Connection recorded successfully'')]\<rparr>,
       \<lparr>profiles_data =
           [(JStr ''u1'', [(''profileUrl'', Scalar (JStr ''u1'')),
                           (''status'', Scalar (JStr ''connected'')),
                           (''connectionTimestamp'', Scalar (JNum 7202))])],
         connection_history =
           [[(''profileUrl'', JStr ''u1''), (''timestamp'', JNum 7202), (''messageUsed'', JNull)]],
         request_timestamps = [7000, 7201]\<rparr>)"
    by (simp add: record_connection_def check_rate_limit_def update_rate_limit_def has_key_def
        subscript_def dict_get_def mark_connected_def Let_def)
  from record_connection_hourly_cap[OF k r1] record_connection_hourly_cap[OF k r2] k r1 r2
  show ?thesis
    by simp
qed

text \<open>
  Claim C9: for every bulk-ingestion request body, \<open>collect_profiles\<close> stores exactly the
  submitted profiles that have a key \<open>profileUrl\<close>, under that URL, a later submission
  overwriting an earlier one with the same URL; profiles without \<open>profileUrl\<close> are
  dropped silently, yet the success message counts all submitted profiles and
  \<open>profiles_count\<close> is the size of the whole store.

  The claim fails for a body in which a \<open>profileUrl\<close> is a list: hashing it as a key
  raises \<open>TypeError\<close>, which leaves the handler (the client gets the status 500 of
  \<open>handle_exception\<close>, not the success message); the profile before it is stored, and
  the profile after it, which has a \<open>profileUrl\<close>, is not.
\<close>

theorem collect_profiles_unhashable_url_counterexample:
  "collect_profiles
     (Json (Parsed (JObj [(''profiles'',
        JArr [JObj [(''profileUrl'', Scalar (JStr ''u1''))],
              JObj [(''profileUrl'', JArr [Scalar (JStr ''x'')])],
              JObj [(''profileUrl'', Scalar (JStr ''u3''))]])])))
     initial_state =
   (Inl TypeError,
    \<lparr>profiles_data = [(JStr ''u1'', [(''profileUrl'', Scalar (JStr ''u1''))])],
      connection_history = [], request_timestamps = []\<rparr>)
   \<and> status_of (Inl TypeError) = 500
   \<and> map_of [(JStr ''u1'', [(''profileUrl'', Scalar (JStr ''u1''))])] (JStr ''u3'') = None"
  by (simp add: collect_profiles_def initial_state_def has_key_def subscript_def status_of_def)

text \<open>
  Claim C9, as the code has it: for every bulk-ingestion request body whose \<open>profiles\<close>
  is a list of JSON objects in which every \<open>profileUrl\<close> can be hashed (a string, a
  number, a boolean or null), \<open>collect_profiles\<close> stores exactly the submitted profiles
  that have a key \<open>profileUrl\<close>, under that URL, a later submission overwriting an
  earlier one with the same URL; profiles without \<open>profileUrl\<close> are dropped silently,
  yet the success message counts all submitted profiles and \<open>profiles_count\<close> is the
  size of the whole store.

  After the call a key maps to the last submitted profile stored under it, and to what
  it mapped to before when no submitted profile has it; the keys of the store are the
  old keys and the keys of the submitted profiles; a profile with the string URL \<open>u\<close>
  has the key \<open>JStr u\<close> and a profile without \<open>profileUrl\<close> has none; the keys stay
  distinct, so the length of the store is its size; the response is the success message
  \<open>Stored n profiles\<close> with \<open>n\<close> the length of the submitted list, and \<open>profiles_count\<close>
  is the length of the store after the call.
\<close>

theorem collect_profiles_stores_by_url:
  assumes "map_of kvs ''profiles'' = Some (JArr (map JObj fs))"
    and "\<forall>f \<in> set fs. hashable_url f"
    and "collect_profiles (Json (Parsed (JObj kvs))) s = (res, s')"
  shows "(\<forall>k. map_of (profiles_data s') k =
            (case find (\<lambda>f. stored_key f = Some k) (rev fs) of
               Some f \<Rightarrow> Some f
             | None \<Rightarrow> map_of (profiles_data s) k))
       \<and> fst ` set (profiles_data s') =
           fst ` set (profiles_data s) \<union> {k. \<exists>f \<in> set fs. stored_key f = Some k}
       \<and> (\<forall>f \<in> set fs. \<forall>u. map_of f ''profileUrl'' = Some (Scalar (JStr u)) \<longrightarrow>
              stored_key f = Some (JStr u))
       \<and> (\<forall>f \<in> set fs. \<not> has_key (map_of f) ''profileUrl'' \<longrightarrow> stored_key f = None)
       \<and> (distinct (map fst (profiles_data s)) \<longrightarrow> distinct (map fst (profiles_data s')))
       \<and> res = Inr \<lparr>status_code = 200,
                     body = [(''success'', RBool True),
                             (''profiles_count'', RInt (int (length (profiles_data s')))),
                             (''message'',
                              RStr (''Stored '' @ str_nat (length fs) @ '' profiles''))]\<rparr>
       \<and> connection_history s' = connection_history s
       \<and> request_timestamps s' = request_timestamps s"
proof -
  obtain e pd where st: "store_profiles (map JObj fs) (profiles_data s) = (e, pd)"
    by (cases "store_profiles (map JObj fs) (profiles_data s)") simp
  have e: "e = None"
    using store_profiles_succeeds[OF assms(2), of "profiles_data s"] st by simp
  have pd: "pd = snd (store_profiles (map JObj fs) (profiles_data s))"
    using st by simp
  have s': "s' = s\<lparr>profiles_data := pd\<rparr>"
    and res: "res = Inr \<lparr>status_code = 200,
                     body = [(''success'', RBool True),
                             (''profiles_count'', RInt (int (length pd))),
                             (''message'',
                              RStr (''Stored '' @ str_nat (length fs) @ '' profiles''))]\<rparr>"
    using assms(3) collect_profiles_list[OF assms(1), of s] st e by simp_all
  have m: "\<forall>k. map_of pd k =
            (case find (\<lambda>f. stored_key f = Some k) (rev fs) of
               Some f \<Rightarrow> Some f
             | None \<Rightarrow> map_of (profiles_data s) k)"
    unfolding pd using map_of_store_profiles[OF assms(2)] by blast
  have k: "fst ` set pd =
           fst ` set (profiles_data s) \<union> {k. \<exists>f \<in> set fs. stored_key f = Some k}"
    unfolding pd by (rule keys_store_profiles[OF assms(2)])
  have d: "distinct (map fst (profiles_data s)) \<longrightarrow> distinct (map fst pd)"
    unfolding pd using distinct_store_profiles[OF assms(2)] by blast
  show ?thesis
    using m k d res by (simp add: s' stored_key_str stored_key_none)
qed

theorem collect_profiles_stores_by_url_witness:
  "map_of [(''profiles'',
       JArr (map JObj [[(''profileUrl'', Scalar (JStr ''u1'')), (''name'', Scalar (JStr ''Ann''))],
                       [(''name'', Scalar (JStr ''Bob''))],
                       [(''profileUrl'', Scalar (JStr ''u1'')), (''name'', Scalar (JStr ''Cy''))]]))]
     ''profiles'' =
     Some (JArr (map JObj [[(''profileUrl'', Scalar (JStr ''u1'')), (''name'', Scalar (JStr ''Ann''))],
                       [(''name'', Scalar (JStr ''Bob''))],
                       [(''profileUrl'', Scalar (JStr ''u1'')), (''name'', Scalar (JStr ''Cy''))]]))
   \<and> list_all hashable_url
        [[(''profileUrl'', Scalar (JStr ''u1'')), (''name'', Scalar (JStr ''Ann''))],
         [(''name'', Scalar (JStr ''Bob''))],
         [(''profileUrl'', Scalar (JStr ''u1'')), (''name'', Scalar (JStr ''Cy''))]]
   \<and> collect_profiles
     (Json (Parsed (JObj [(''profiles'',
       JArr (map JObj [[(''profileUrl'', Scalar (JStr ''u1'')), (''name'', Scalar (JStr ''Ann''))],
                       [(''name'', Scalar (JStr ''Bob''))],
                       [(''profileUrl'', Scalar (JStr ''u1'')), (''name'', Scalar (JStr ''Cy''))]]))])))
     initial_state =
   (Inr \<lparr>status_code = 200,
      body = [(''success'', RBool True), (''profiles_count'', RInt 1),
              (''message'', RStr ''Stored 3 profiles'')]\<rparr>,
    \<lparr>profiles_data =
       [(JStr ''u1'', [(''profileUrl'', Scalar (JStr ''u1'')), (''name'', Scalar (JStr ''Cy''))])],
      connection_history = [], request_timestamps = []\<rparr>)"
proof -
  let ?fs = "[[(''profileUrl'', Scalar (JStr ''u1'')), (''name'', Scalar (JStr ''Ann''))],
              [(''name'', Scalar (JStr ''Bob''))],
              [(''profileUrl'', Scalar (JStr ''u1'')), (''name'', Scalar (JStr ''Cy''))]]"
  let ?kvs = "[(''profiles'', JArr (map JObj ?fs))]"
  let ?res = "Inr \<lparr>status_code = 200,
      body = [(''success'', RBool True), (''profiles_count'', RInt 1),
              (''message'', RStr ''Stored 3 profiles'')]\<rparr>"
  let ?s' = "\<lparr>profiles_data =
       [(JStr ''u1'', [(''profileUrl'', Scalar (JStr ''u1'')), (''name'', Scalar (JStr ''Cy''))])],
      connection_history = [], request_timestamps = []\<rparr>"
  have p: "map_of ?kvs ''profiles'' = Some (JArr (map JObj ?fs))"
    by simp
  have h: "\<forall>f \<in> set ?fs. hashable_url f"
    by (simp add: hashable_url_def)
  have n: "str_nat (Suc (Suc (Suc 0))) = ''3''"
    by code_simp
  have c: "collect_profiles (Json (Parsed (JObj ?kvs))) initial_state = (?res, ?s')"
    by (simp add: collect_profiles_def initial_state_def has_key_def subscript_def n)
  from collect_profiles_stores_by_url[OF p h c] p h c show ?thesis
    by (simp add: list_all_iff)
qed

text \<open>
  Claim C10: immediately after any call to \<open>check_rate_limit\<close>, every timestamp left in
  \<open>request_timestamps\<close> lies strictly within the past 3600 seconds of the current time,
  so the comparison with \<open>MAX_REQUESTS_PER_HOUR\<close> counts only the connections recorded
  during the last hour.

  After the call every remaining timestamp is greater than \<open>now - 3600\<close> (and not after
  \<open>now\<close>, when none was before the call); the list is the old one filtered by that test;
  the answer is whether its length has reached the limit; nothing else of the state
  changes.
\<close>
theorem check_rate_limit_window:
  assumes "check_rate_limit max_requests now s = (limited, s')"
  shows "(\<forall>ts \<in> set (request_timestamps s'). now - 3600 < ts)
       \<and> request_timestamps s' = filter (\<lambda>ts. now - 3600 < ts) (request_timestamps s)
       \<and> (limited \<longleftrightarrow> max_requests \<le> int (recorded_within_hour now s))
       \<and> recorded_within_hour now s' = recorded_within_hour now s
       \<and> length (request_timestamps s') = recorded_within_hour now s
       \<and> ((\<forall>ts \<in> set (request_timestamps s). ts \<le> now) \<longrightarrow>
            (\<forall>ts \<in> set (request_timestamps s'). ts \<le> now))
       \<and> profiles_data s' = profiles_data s
       \<and> connection_history s' = connection_history s"
  using assms
  by (auto simp: check_rate_limit_def recorded_within_hour_def Let_def)

theorem check_rate_limit_window_witness:
  "check_rate_limit 2 7200 (initial_state\<lparr>request_timestamps := [100, 3600, 5000, 7000]\<rparr>) =
     (True, initial_state\<lparr>request_timestamps := [5000, 7000]\<rparr>)
   \<and> recorded_within_hour 7200 (initial_state\<lparr>request_timestamps := [100, 3600, 5000, 7000]\<rparr>) = 2
   \<and> list_all (\<lambda>ts. 7200 - 3600 < ts \<and> ts \<le> 7200)
        (request_timestamps (initial_state\<lparr>request_timestamps := [5000, 7000]\<rparr>))"
proof -
  have c: "check_rate_limit 2 7200 (initial_state\<lparr>request_timestamps := [100, 3600, 5000, 7000]\<rparr>) =
     (True, initial_state\<lparr>request_timestamps := [5000, 7000]\<rparr>)"
    by (simp add: check_rate_limit_def initial_state_def Let_def)
  have b: "\<forall>ts \<in> set (request_timestamps
      (initial_state\<lparr>request_timestamps := [100, 3600, 5000, 7000]\<rparr>)). ts \<le> 7200"
    by simp
  from check_rate_limit_window[OF c] b c show ?thesis
    by (simp add: recorded_within_hour_def)
qed

end
